theory Spec2Isabelle
  imports Main "HOL-Library.FSet" "HOL-Library.AList"
begin

section \<open>The Bro log reader (bro\_tools/log\_reader.py)\<close>

text \<open>
  A Python \<open>str\<close> is modelled as a \<^typ>\<open>string\<close> whose characters are the code points
  below 256 (Latin-1). Exceptions are values of the type \<open>error\<close>; a function that can
  raise returns \<open>error + 'a\<close>, with \<open>Inl\<close> for the exception.
\<close>

subsection \<open>Exceptions and values\<close>

datatype reason =
    NotBetween int int int      \<comment> \<open>\<open>'{} not between {} and {}'\<close>: value, minv, maxv\<close>
  | NotLessThan int int         \<comment> \<open>\<open>'{} not less than {}'\<close>: value, maxv\<close>
  | NotGreaterEq int int        \<comment> \<open>\<open>'{} not greater than or equal to {}'\<close>: value, minv\<close>
  | NotBoolLike string          \<comment> \<open>\<open>'{!r} not bool-like'\<close>\<close>
  | InvalidLiteral string       \<comment> \<open>raised by \<open>int(...)\<close>\<close>
  | EmptySeparator              \<comment> \<open>raised by \<open>str.split('')\<close>\<close>
  | OtherReason

datatype error =
    BroLogFormatError string    \<comment> \<open>carries the rejected, unescaped separator\<close>
  | ValueError reason
  | KeyError string
  | AttributeError string
  | TypeError
  | UnicodeDecodeError
  | OverflowError
  | NotModelled                 \<comment> \<open>only returned by the reference library instance below\<close>

datatype ipaddr = IPv4Address nat | IPv6Address nat
datatype timedelta = Timedelta int int int
datatype datetime = Datetime "int list"

datatype pyval =
    PyNone
  | PyBool bool
  | PyInt int
  | PyStr string
  | PyAddr ipaddr
  | PyTimedelta timedelta
  | PyDatetime datetime
  | PySet "pyval fset"
  | PyTuple "pyval list"

text \<open>A value stored in \<open>self._metadata\<close>: a string, a tuple of strings, or a timestamp.\<close>

datatype mvalue = MStr string | MTuple "string list" | MDatetime datetime

text \<open>
  The library functions the module calls and that are not interpreted here: the
  \<open>unicode_escape\<close> codec, \<open>ipaddress.ip_address\<close>, the two float conversions behind
  \<open>interval\<close> and \<open>time\<close>, and the \<open>datetime.datetime\<close> constructor. Every theorem
  below holds for any behaviour of these functions.
\<close>

record pylib =
  unicode_escape :: "string \<Rightarrow> error + string"
  ip_address :: "string \<Rightarrow> error + ipaddr"
  timedelta_of_float :: "string \<Rightarrow> error + timedelta"
  fromtimestamp_of_float :: "string \<Rightarrow> error + datetime"
  datetime_new :: "int list \<Rightarrow> error + datetime"

text \<open>The reader object: the constructor's flag and the metadata dictionary.\<close>

record reader =
  decompose_aggregate :: bool
  metadata :: "string \<rightharpoonup> mvalue"

subsection \<open>String operations of the Python library\<close>

abbreviation nl :: char where "nl \<equiv> CHR 0x0A"
abbreviation backslash :: char where "backslash \<equiv> CHR 0x5C"

text \<open>Running a sequence of computations stops at the first exception.\<close>

fun collect :: "(error + 'a) list \<Rightarrow> error + 'a list" where
  "collect [] = Inr []"
| "collect (Inl e # rs) = Inl e"
| "collect (Inr x # rs) = (case collect rs of Inl e \<Rightarrow> Inl e | Inr xs \<Rightarrow> Inr (x # xs))"

definition startswith :: "string \<Rightarrow> string \<Rightarrow> bool" where
  "startswith s p = (take (length p) s = p)"

definition lstrip :: "string \<Rightarrow> char \<Rightarrow> string" where
  "lstrip s c = dropWhile (\<lambda>x. x = c) s"

definition rstrip :: "string \<Rightarrow> char \<Rightarrow> string" where
  "rstrip s c = rev (dropWhile (\<lambda>x. x = c) (rev s))"

text \<open>\<open>s.split(sep)\<close> for a non-empty separator: non-overlapping matches, left to right.\<close>

function split_from :: "string \<Rightarrow> string \<Rightarrow> string \<Rightarrow> string list" where
  "split_from sep acc [] = [rev acc]"
| "split_from sep acc (c # cs) =
     (if sep \<noteq> [] \<and> take (length sep) (c # cs) = sep
      then rev acc # split_from sep [] (drop (length sep) (c # cs))
      else split_from sep (c # acc) cs)"
  by pat_completeness auto
termination
  by (relation "measure (\<lambda>(sep, acc, s). length s)") auto

definition split :: "string \<Rightarrow> mvalue \<Rightarrow> error + string list" where
  "split s sep =
     (case sep of
        MStr p \<Rightarrow> if p = [] then Inl (ValueError EmptySeparator) else Inr (split_from p [] s)
      | MTuple _ \<Rightarrow> Inl TypeError
      | MDatetime _ \<Rightarrow> Inl TypeError)"

text \<open>Iterating a metadata value, as \<open>zip\<close> does: a string yields its characters.\<close>

fun iterate :: "mvalue \<Rightarrow> error + string list" where
  "iterate (MStr s) = Inr (map (\<lambda>c. [c]) s)"
| "iterate (MTuple xs) = Inr xs"
| "iterate (MDatetime d) = Inl TypeError"

text \<open>
  \<open>dict(pairs)\<close>: a later pair with a key already present replaces the value and keeps
  the position of the key.
\<close>

definition dict :: "(string \<times> pyval) list \<Rightarrow> (string \<times> pyval) list" where
  "dict ps = foldl (\<lambda>d (k, v). AList.update k v d) [] ps"

subsection \<open>\<open>int(str)\<close>\<close>

text \<open>
  \<open>int\<close> of a \<open>str\<close>, base 10: white space around the literal is dropped (the ASCII
  white space, and the two Latin-1 spaces \<open>0x85\<close> and \<open>0xA0\<close>, which CPython turns into
  blanks first), then comes an optional sign and decimal digits, with single underscores
  allowed between digits. The interpreter's optional limit on the number of digits is
  left out.
\<close>

definition is_space :: "char \<Rightarrow> bool" where
  "is_space c =
     (let n = (of_char c :: nat)
      in (9 \<le> n \<and> n \<le> 13) \<or> n = 32 \<or> n = 133 \<or> n = 160)"

definition is_digit :: "char \<Rightarrow> bool" where
  "is_digit c = (let n = (of_char c :: nat) in 48 \<le> n \<and> n \<le> 57)"

text \<open>
  Decimal digits with single underscores between them; \<open>prev\<close> says that the previous
  character was a digit.
\<close>

fun int_digits :: "int \<Rightarrow> bool \<Rightarrow> string \<Rightarrow> int option" where
  "int_digits acc prev [] = (if prev then Some acc else None)"
| "int_digits acc prev (c # cs) =
     (if is_digit c then int_digits (10 * acc + (int (of_char c) - 48)) True cs
      else if c = CHR ''_'' \<and> prev then int_digits acc False cs
      else None)"

definition py_int :: "string \<Rightarrow> error + int" where
  "py_int s =
     (let t = rev (dropWhile is_space (rev (dropWhile is_space s)));
          neg = (t \<noteq> [] \<and> hd t = CHR ''-'');
          body = (if t \<noteq> [] \<and> (hd t = CHR ''-'' \<or> hd t = CHR ''+'') then tl t else t)
      in case int_digits 0 False body of
           None \<Rightarrow> Inl (ValueError (InvalidLiteral s))
         | Some n \<Rightarrow> Inr (if neg then - n else n))"

subsection \<open>The casters\<close>

definition maybe_singleton :: "string list \<Rightarrow> mvalue" where
  "maybe_singleton thing = (if length thing = 1 then MStr (thing ! 0) else MTuple thing)"

definition range_check :: "int option \<Rightarrow> int option \<Rightarrow> string \<Rightarrow> error + int" where
  "range_check minv maxv =
     (case (minv, maxv) of
        (Some lo, Some hi) \<Rightarrow>
          (\<lambda>val. case py_int val of
                   Inl e \<Rightarrow> Inl e
                 | Inr v \<Rightarrow> if lo \<le> v \<and> v < hi then Inr v
                           else Inl (ValueError (NotBetween v lo hi)))
      | (None, Some hi) \<Rightarrow>
          (\<lambda>val. case py_int val of
                   Inl e \<Rightarrow> Inl e
                 | Inr v \<Rightarrow> if v < hi then Inr v
                           else Inl (ValueError (NotLessThan v hi)))
      | (Some lo, None) \<Rightarrow>
          (\<lambda>val. case py_int val of
                   Inl e \<Rightarrow> Inl e
                 | Inr v \<Rightarrow> if lo \<le> v then Inr v
                           else Inl (ValueError (NotGreaterEq v lo)))
      | (None, None) \<Rightarrow> py_int)"

definition bool_from_str :: "string \<Rightarrow> error + bool" where
  "bool_from_str v =
     (if v \<in> {''1'', ''y'', ''Y'', ''t'', ''T''} then Inr True
      else if v \<in> {''0'', ''n'', ''N'', ''f'', ''F''} then Inr False
      else Inl (ValueError (NotBoolLike v)))"

text \<open>
  \<open>\w\<close> of a \<open>str\<close> pattern, on the code points below 256: a character that is
  alphanumeric in Unicode, or the underscore.
\<close>

definition is_word :: "char \<Rightarrow> bool" where
  "is_word c =
     (let n = (of_char c :: nat)
      in (48 \<le> n \<and> n \<le> 57) \<or> (65 \<le> n \<and> n \<le> 90) \<or> n = 95 \<or> (97 \<le> n \<and> n \<le> 122)
         \<or> n = 170 \<or> n = 178 \<or> n = 179 \<or> n = 181 \<or> n = 185 \<or> n = 186
         \<or> (188 \<le> n \<and> n \<le> 190) \<or> (192 \<le> n \<and> n \<le> 214) \<or> (216 \<le> n \<and> n \<le> 246)
         \<or> 248 \<le> n)"

text \<open>
  \<open>AGGREGATE_TYPE_RE.match(s)\<close> for the pattern \<open>^(\w+)\[(\w+)\]$\<close>, returning the two
  groups. \<open>$\<close> also matches just before a newline that ends the string.
\<close>

definition AGGREGATE_TYPE_RE :: "string \<Rightarrow> (string \<times> string) option" where
  "AGGREGATE_TYPE_RE s =
     (let core = (if s \<noteq> [] \<and> last s = nl then butlast s else s);
          g1 = takeWhile is_word core;
          r1 = dropWhile is_word core
      in case r1 of
           [] \<Rightarrow> None
         | b # r2 \<Rightarrow>
             (let g2 = takeWhile is_word r2;
                  r3 = dropWhile is_word r2
              in if b = CHR ''['' \<and> g1 \<noteq> [] \<and> g2 \<noteq> [] \<and> r3 = '']''
                 then Some (g1, g2) else None))"

definition AGGREGATE_TYPES :: "string \<Rightarrow> (pyval list \<Rightarrow> pyval) option" where
  "AGGREGATE_TYPES k =
     (if k = ''set'' then Some (\<lambda>xs. PySet (fset_of_list xs))
      else if k = ''vector'' then Some PyTuple
      else None)"

definition TYPES :: "pylib \<Rightarrow> string \<Rightarrow> (string \<Rightarrow> error + pyval) option" where
  "TYPES L k =
     (if k = ''addr'' then Some (\<lambda>x. map_sum id PyAddr (ip_address L x))
      else if k = ''bool'' then Some (\<lambda>x. map_sum id PyBool (bool_from_str x))
      else if k = ''count'' then Some (\<lambda>x. map_sum id PyInt (range_check (Some 0) None x))
      else if k = ''enum'' then Some (\<lambda>x. Inr (PyStr x))
      else if k = ''interval'' then Some (\<lambda>x. map_sum id PyTimedelta (timedelta_of_float L x))
      else if k = ''port'' then Some (\<lambda>x. map_sum id PyInt (range_check (Some 0) (Some (2 ^ 16)) x))
      else if k = ''string'' then Some (\<lambda>x. Inr (PyStr x))
      else if k = ''time'' then Some (\<lambda>x. map_sum id PyDatetime (fromtimestamp_of_float L x))
      else None)"

subsection \<open>The reader\<close>

definition init :: "bool \<Rightarrow> reader" where
  "init flag = \<lparr>decompose_aggregate = flag, metadata = [''separator'' \<mapsto> MStr '' '']\<rparr>"

definition getattr :: "reader \<Rightarrow> string \<Rightarrow> error + mvalue" where
  "getattr self name =
     (case metadata self name of
        Some v \<Rightarrow> Inr v
      | None \<Rightarrow> Inl (AttributeError name))"

function cast_value :: "pylib \<Rightarrow> reader \<Rightarrow> string \<Rightarrow> string \<Rightarrow> error + pyval" where
  "cast_value L self v ty =
     (case getattr self ''unset_field'' of
        Inl e \<Rightarrow> Inl e
      | Inr unset_field \<Rightarrow>
          if MStr v = unset_field then Inr PyNone
          else
            (case AGGREGATE_TYPE_RE ty of
               Some (agg_type, subtype) \<Rightarrow>
                 if decompose_aggregate self then
                   (case getattr self ''empty_field'' of
                      Inl e \<Rightarrow> Inl e
                    | Inr empty_field \<Rightarrow>
                        if MStr v = empty_field then
                          (case AGGREGATE_TYPES agg_type of
                             None \<Rightarrow> Inl (KeyError agg_type)
                           | Some ctor \<Rightarrow> Inr (ctor []))
                        else
                          (case AGGREGATE_TYPES agg_type of
                             None \<Rightarrow> Inl (KeyError agg_type)
                           | Some ctor \<Rightarrow>
                               (case getattr self ''set_separator'' of
                                  Inl e \<Rightarrow> Inl e
                                | Inr sep \<Rightarrow>
                                    (case split v sep of
                                       Inl e \<Rightarrow> Inl e
                                     | Inr pieces \<Rightarrow>
                                         (case collect (map (\<lambda>p. cast_value L self p subtype) pieces) of
                                            Inl e \<Rightarrow> Inl e
                                          | Inr xs \<Rightarrow> Inr (ctor xs))))))
                 else Inr (PyStr v)
             | None \<Rightarrow>
                 (case TYPES L ty of
                    None \<Rightarrow> Inl (KeyError ty)
                  | Some caster \<Rightarrow> caster v)))"
  by pat_completeness auto
termination
proof (relation "measure (\<lambda>(L, self, v, ty). length ty)")
  show "wf (measure (\<lambda>(L, self, v, ty). length ty))"
    by simp
next
  fix L :: pylib and self :: reader and v ty :: string
    and x2 :: "string \<times> string" and agg_type subtype p :: string
  assume m: "AGGREGATE_TYPE_RE ty = Some x2" and x2: "(agg_type, subtype) = x2"
  define core where "core = (if ty \<noteq> [] \<and> last ty = nl then butlast ty else ty)"
  have len: "length core \<le> length ty"
    by (simp add: core_def)
  obtain b r2 where r1: "dropWhile is_word core = b # r2"
    and g2: "subtype = takeWhile is_word r2"
    using m x2 unfolding AGGREGATE_TYPE_RE_def core_def [symmetric]
    by (auto simp: Let_def split: list.splits if_splits)
  have "length (takeWhile is_word core) + length (dropWhile is_word core) = length core"
    by (metis length_append takeWhile_dropWhile_id)
  hence "length r2 < length core"
    using r1 by simp
  moreover have "length subtype \<le> length r2"
    unfolding g2 by (rule length_takeWhile_le)
  ultimately have "length subtype < length ty"
    using len by linarith
  thus "((L, self, p, subtype), (L, self, v, ty)) \<in> measure (\<lambda>(L, self, v, ty). length ty)"
    by simp
qed

declare cast_value.simps [simp del]

definition cast_values :: "pylib \<Rightarrow> reader \<Rightarrow> string list \<Rightarrow> mvalue \<Rightarrow> error + pyval list" where
  "cast_values L self vals types =
     (case iterate types of
        Inl e \<Rightarrow> Inl e
      | Inr ts \<Rightarrow> collect (map (\<lambda>(v, t). cast_value L self v t) (zip vals ts)))"

text \<open>A record, as \<open>__iter__\<close> yields it: the items of the dictionary in insertion order.\<close>

type_synonym row = "(string \<times> pyval) list"

text \<open>
  The metadata branch of the loop body of \<open>__iter__\<close>. \<open>store_directive\<close> is what the
  branch does with the tokens of the line (\<open>key, *rest = ...\<close> and the lines after
  it); \<open>metadata_line\<close> is the whole branch, giving the reader after the line.
\<close>

definition store_directive :: "pylib \<Rightarrow> reader \<Rightarrow> string list \<Rightarrow> error + reader" where
  "store_directive L self toks =
     (case toks of
        [] \<Rightarrow> Inl (ValueError OtherReason)
      | key # rest0 \<Rightarrow>
          (let rest = maybe_singleton rest0;
               value =
                 (if key \<in> {''separator'', ''set_separator''} then
                    (case rest of
                       MStr r \<Rightarrow>
                         (case unicode_escape L r of
                            Inl e \<Rightarrow> Inl e
                          | Inr d \<Rightarrow>
                              if length d \<noteq> 1 then Inl (BroLogFormatError d)
                              else Inr (MStr d))
                     | MTuple _ \<Rightarrow> Inl TypeError
                     | MDatetime _ \<Rightarrow> Inl TypeError)
                  else if key \<in> {''open'', ''close''} then
                    (case rest of
                       MStr r \<Rightarrow>
                         (case split r (MStr ''-'') of
                            Inl e \<Rightarrow> Inl e
                          | Inr ps \<Rightarrow>
                              (case collect (map py_int ps) of
                                 Inl e \<Rightarrow> Inl e
                               | Inr ns \<Rightarrow> map_sum id MDatetime (datetime_new L ns)))
                     | MTuple _ \<Rightarrow> Inl (AttributeError ''split'')
                     | MDatetime _ \<Rightarrow> Inl (AttributeError ''split''))
                  else Inr rest)
           in case value of
                Inl e \<Rightarrow> Inl e
              | Inr x \<Rightarrow> Inr (self\<lparr>metadata := (metadata self)(key \<mapsto> x)\<rparr>)))"

definition metadata_line :: "pylib \<Rightarrow> reader \<Rightarrow> string \<Rightarrow> error + reader" where
  "metadata_line L self line =
     (case getattr self ''separator'' of
        Inl e \<Rightarrow> Inl e
      | Inr sep \<Rightarrow>
          (case split (rstrip (lstrip line (CHR ''#'')) nl) sep of
             Inl e \<Rightarrow> Inl e
           | Inr toks \<Rightarrow> store_directive L self toks))"

text \<open>
  The data branch of the loop body. \<open>yield_record\<close> is what the branch does with the
  cells of the line; \<open>data_line\<close> is the whole branch, giving the record that is yielded.
\<close>

definition yield_record :: "pylib \<Rightarrow> reader \<Rightarrow> string list \<Rightarrow> error + row" where
  "yield_record L self cells =
     (case metadata self ''types'' of
        None \<Rightarrow> Inl (KeyError ''types'')
      | Some types \<Rightarrow>
          (case cast_values L self cells types of
             Inl e \<Rightarrow> Inl e
           | Inr vals \<Rightarrow>
               (case getattr self ''fields'' of
                  Inl e \<Rightarrow> Inl e
                | Inr flds \<Rightarrow>
                    (case iterate flds of
                       Inl e \<Rightarrow> Inl e
                     | Inr names \<Rightarrow> Inr (dict (zip names vals))))))"

definition data_line :: "pylib \<Rightarrow> reader \<Rightarrow> string \<Rightarrow> error + row" where
  "data_line L self line =
     (case getattr self ''separator'' of
        Inl e \<Rightarrow> Inl e
      | Inr sep \<Rightarrow>
          (case split (rstrip line nl) sep of
             Inl e \<Rightarrow> Inl e
           | Inr cells \<Rightarrow> yield_record L self cells))"

text \<open>
  \<open>__iter__\<close> run over the lines of the log file: the records yielded in order, the
  exception that ended the iteration (if any), and the reader at that point.
\<close>

fun iter :: "pylib \<Rightarrow> reader \<Rightarrow> string list \<Rightarrow> row list \<times> error option \<times> reader" where
  "iter L self [] = ([], None, self)"
| "iter L self (line # lines) =
     (if startswith line ''#'' then
        (case metadata_line L self line of
           Inl e \<Rightarrow> ([], Some e, self)
         | Inr self' \<Rightarrow> iter L self' lines)
      else
        (case data_line L self line of
           Inl e \<Rightarrow> ([], Some e, self)
         | Inr r \<Rightarrow> (case iter L self lines of (rs, out, self') \<Rightarrow> (r # rs, out, self'))))"

subsection \<open>A reference instance of the library\<close>

text \<open>
  Used to run the model on concrete inputs. Its codec follows CPython on the input it
  accepts: the \<open>str\<close> is encoded as UTF-8, then the single-letter escapes, \<open>\xhh\<close>, octal
  escapes below \<open>\400\<close> and unknown escapes (kept as they are) are decoded. Escapes that
  yield a code point above 255 and the other library functions are not modelled.
\<close>

definition hex_digit :: "char \<Rightarrow> nat option" where
  "hex_digit c =
     (let n = (of_char c :: nat)
      in if 48 \<le> n \<and> n \<le> 57 then Some (n - 48)
         else if 97 \<le> n \<and> n \<le> 102 then Some (n - 87)
         else if 65 \<le> n \<and> n \<le> 70 then Some (n - 55)
         else None)"

definition oct_digit :: "char \<Rightarrow> nat option" where
  "oct_digit c = (let n = (of_char c :: nat) in if 48 \<le> n \<and> n \<le> 55 then Some (n - 48) else None)"

definition utf8 :: "char \<Rightarrow> string" where
  "utf8 c =
     (let n = (of_char c :: nat)
      in if n < 128 then [c] else [char_of (192 + n div 64), char_of (128 + n mod 64)])"

definition simple_escape :: "char \<Rightarrow> string option" where
  "simple_escape d =
     (if d = nl then Some []
      else if d = backslash then Some [backslash]
      else if d = CHR 0x27 then Some [CHR 0x27]
      else if d = CHR 0x22 then Some [CHR 0x22]
      else if d = CHR ''a'' then Some [CHR 0x07]
      else if d = CHR ''b'' then Some [CHR 0x08]
      else if d = CHR ''f'' then Some [CHR 0x0C]
      else if d = CHR ''n'' then Some [CHR 0x0A]
      else if d = CHR ''r'' then Some [CHR 0x0D]
      else if d = CHR ''t'' then Some [CHR 0x09]
      else if d = CHR ''v'' then Some [CHR 0x0B]
      else None)"

definition prepend :: "string \<Rightarrow> error + string \<Rightarrow> error + string" where
  "prepend p r = (case r of Inl e \<Rightarrow> Inl e | Inr s \<Rightarrow> Inr (p @ s))"

fun unescape :: "string \<Rightarrow> error + string" where
  "unescape [] = Inr []"
| "unescape [c] = (if c = backslash then Inl UnicodeDecodeError else Inr (utf8 c))"
| "unescape (c # d # cs) =
     (if c \<noteq> backslash then prepend (utf8 c) (unescape (d # cs))
      else
        (case simple_escape d of
           Some p \<Rightarrow> prepend p (unescape cs)
         | None \<Rightarrow>
             if d = CHR ''x'' then
               (case cs of
                  h1 # h2 # rest \<Rightarrow>
                    (case (hex_digit h1, hex_digit h2) of
                       (Some a, Some b) \<Rightarrow> prepend [char_of (16 * a + b)] (unescape rest)
                     | _ \<Rightarrow> Inl UnicodeDecodeError)
                | _ \<Rightarrow> Inl UnicodeDecodeError)
             else if d \<in> {CHR ''u'', CHR ''U'', CHR ''N''} then Inl NotModelled
             else
               (case oct_digit d of
                  None \<Rightarrow> prepend (backslash # utf8 d) (unescape cs)
                | Some a \<Rightarrow>
                    (case cs of
                       [] \<Rightarrow> Inr [char_of a]
                     | o2 # r2 \<Rightarrow>
                         (case oct_digit o2 of
                            None \<Rightarrow> prepend [char_of a] (unescape (o2 # r2))
                          | Some b \<Rightarrow>
                              (case r2 of
                                 [] \<Rightarrow> Inr [char_of (8 * a + b)]
                               | o3 # r3 \<Rightarrow>
                                   (case oct_digit o3 of
                                      None \<Rightarrow> prepend [char_of (8 * a + b)] (unescape (o3 # r3))
                                    | Some c3 \<Rightarrow>
                                        if 64 * a + 8 * b + c3 < 256
                                        then prepend [char_of (64 * a + 8 * b + c3)] (unescape r3)
                                        else Inl NotModelled)))))))"

definition not_modelled :: "'a \<Rightarrow> error + 'b" where
  "not_modelled x = Inl NotModelled"

definition reflib :: pylib where
  "reflib =
     \<lparr>unicode_escape = unescape,
      ip_address = not_modelled,
      timedelta_of_float = not_modelled,
      fromtimestamp_of_float = not_modelled,
      datetime_new = not_modelled\<rparr>"

text \<open>
  The reader after the header that Bro writes by default: tab-separated cells, \<open>,\<close>
  between the elements of an aggregate, \<open>(empty)\<close> and \<open>-\<close> as markers.
\<close>

definition bro_header :: "bool \<Rightarrow> reader" where
  "bro_header flag =
     \<lparr>decompose_aggregate = flag,
      metadata = [''separator'' \<mapsto> MStr [CHR 0x09], ''set_separator'' \<mapsto> MStr '','',
                  ''empty_field'' \<mapsto> MStr ''(empty)'', ''unset_field'' \<mapsto> MStr ''-'']\<rparr>"

section \<open>Properties of the value decoder\<close>

subsection \<open>Auxiliary facts\<close>

lemma AGGREGATE_TYPE_RE_scalar:
  "AGGREGATE_TYPE_RE ''enum'' = None" "AGGREGATE_TYPE_RE ''string'' = None"
  "AGGREGATE_TYPE_RE ''count'' = None" "AGGREGATE_TYPE_RE ''port'' = None"
  "AGGREGATE_TYPE_RE ''bool'' = None"
  by (simp_all add: AGGREGATE_TYPE_RE_def is_word_def)

lemma cast_value_scalar:
  assumes "metadata self ''unset_field'' = Some unset" and "MStr v \<noteq> unset"
    and "AGGREGATE_TYPE_RE ty = None"
  shows "cast_value L self v ty =
           (case TYPES L ty of None \<Rightarrow> Inl (KeyError ty) | Some caster \<Rightarrow> caster v)"
  using assms by (simp add: cast_value.simps getattr_def)

lemma collect_map_Inr: "collect (map Inr xs) = Inr xs"
  by (induction xs) simp_all

lemma collect_Inr_iff: "collect rs = Inr xs \<longleftrightarrow> rs = map Inr xs"
proof
  show "collect rs = Inr xs \<Longrightarrow> rs = map Inr xs"
  proof (induction rs arbitrary: xs rule: collect.induct)
    case 1
    then show ?case by simp
  next
    case (2 e rs)
    then show ?case by simp
  next
    case (3 x rs)
    then show ?case by (auto split: sum.splits)
  qed
next
  show "rs = map Inr xs \<Longrightarrow> collect rs = Inr xs"
    by (simp add: collect_map_Inr)
qed

lemma split_from_nonempty: "split_from sep acc s \<noteq> []"
  by (induction sep acc s rule: split_from.induct) auto

subsection \<open>The unset marker\<close>

text \<open>
  C1. Whenever \<open>unset_field\<close> is set, a cell equal to it decodes to \<open>None\<close>, for every
  type name (scalar, aggregate or unknown), whatever the other settings of the reader
  are: the comparison is the first thing \<open>_cast_value\<close> does.
\<close>

theorem unset_marker_decodes_to_null:
  "metadata self ''unset_field'' = Some (MStr u) \<Longrightarrow> cast_value L self u ty = Inr PyNone"
  by (simp add: cast_value.simps getattr_def)

theorem unset_marker_decodes_to_null_witness:
  "metadata (bro_header True) ''unset_field'' = Some (MStr ''-'')
   \<and> cast_value reflib (bro_header True) ''-'' ''vector[count]'' = Inr PyNone"
  using unset_marker_decodes_to_null [of "bro_header True" "''-''" reflib "''vector[count]''"]
  by (simp add: bro_header_def)

subsection \<open>Strings, enums and unknown type names\<close>

text \<open>
  C3, as the specification states it, fails: a type name that is neither an aggregate
  nor a key of \<open>TYPES\<close> is not passed through. Here the cell \<open>x\<close> of the unknown type
  \<open>foo\<close> raises \<open>KeyError\<close>.
\<close>

theorem unknown_type_counterexample:
  "metadata (bro_header True) ''unset_field'' = Some (MStr ''-'')
   \<and> AGGREGATE_TYPE_RE ''foo'' = None
   \<and> cast_value reflib (bro_header True) ''x'' ''foo'' = Inl (KeyError ''foo'')"
  by (simp add: cast_value.simps getattr_def bro_header_def AGGREGATE_TYPE_RE_def
      is_word_def TYPES_def)

text \<open>
  C3, amended. A cell that is not the unset marker and whose type is \<open>enum\<close> or
  \<open>string\<close> decodes to the raw string; with a type name that does not match the
  aggregate pattern and is not one of the eight keys of \<open>TYPES\<close>, decoding raises
  \<open>KeyError\<close> with that name.
\<close>

theorem enum_string_passthrough:
  assumes "metadata self ''unset_field'' = Some unset" and "MStr v \<noteq> unset"
  shows "(ty \<in> {''enum'', ''string''} \<longrightarrow> cast_value L self v ty = Inr (PyStr v))
       \<and> (AGGREGATE_TYPE_RE ty = None
            \<and> ty \<notin> {''addr'', ''bool'', ''count'', ''enum'', ''interval'', ''port'',
                     ''string'', ''time''}
           \<longrightarrow> cast_value L self v ty = Inl (KeyError ty))"
proof (intro conjI impI)
  assume "ty \<in> {''enum'', ''string''}"
  then show "cast_value L self v ty = Inr (PyStr v)"
    using assms by (auto simp: cast_value_scalar AGGREGATE_TYPE_RE_scalar TYPES_def)
next
  assume "AGGREGATE_TYPE_RE ty = None
            \<and> ty \<notin> {''addr'', ''bool'', ''count'', ''enum'', ''interval'', ''port'',
                     ''string'', ''time''}"
  then show "cast_value L self v ty = Inl (KeyError ty)"
    using assms by (simp add: cast_value_scalar TYPES_def)
qed

theorem enum_string_passthrough_witness:
  "metadata (bro_header True) ''unset_field'' = Some (MStr ''-'')
   \<and> MStr ''tcp'' \<noteq> MStr ''-''
   \<and> ''enum'' \<in> {''enum'', ''string''}
   \<and> cast_value reflib (bro_header True) ''tcp'' ''enum'' = Inr (PyStr ''tcp'')"
  using enum_string_passthrough
    [of "bro_header True" "MStr ''-''" "''tcp''" "''enum''" reflib]
  by (simp add: bro_header_def)

subsection \<open>Counts and ports\<close>

text \<open>
  C4, as stated, fails in its last clause: for \<open>port\<close> the failure does not report which
  bound was violated. \<open>range_check(0, 2**16)\<close> has both bounds, so a value below \<open>0\<close> and
  a value from \<open>65536\<close> on raise the same \<open>ValueError\<close>, \<open>n not between 0 and 65536\<close>.
\<close>

theorem port_error_counterexample:
  "cast_value reflib (bro_header True) ''-1'' ''port''
     = Inl (ValueError (NotBetween (- 1) 0 65536))
   \<and> cast_value reflib (bro_header True) ''70000'' ''port''
       = Inl (ValueError (NotBetween 70000 0 65536))"
  by (simp add: cast_value.simps getattr_def bro_header_def AGGREGATE_TYPE_RE_def is_word_def
      TYPES_def range_check_def py_int_def is_space_def is_digit_def)

text \<open>
  C4, amended. For a cell \<open>s\<close> that \<open>int\<close> parses to \<open>n\<close>: the caster of \<open>count\<close> returns
  \<open>n\<close> exactly when \<open>0 \<le> n\<close> and otherwise raises the \<open>ValueError\<close> that names the value
  and the lower bound (\<open>n not greater than or equal to 0\<close>); the caster of \<open>port\<close> returns
  \<open>n\<close> exactly when \<open>0 \<le> n < 65536\<close> and otherwise raises the \<open>ValueError\<close> that names the
  value and the two bounds (\<open>n not between 0 and 65536\<close>), the same for either bound.
  \<open>_cast_value\<close> gives the same results for every such cell that is not the unset marker.
\<close>

theorem count_port_range:
  assumes "py_int s = Inr n"
  shows "(\<exists>f. TYPES L ''count'' = Some f
             \<and> f s = (if 0 \<le> n then Inr (PyInt n) else Inl (ValueError (NotGreaterEq n 0))))
       \<and> (\<exists>f. TYPES L ''port'' = Some f
             \<and> f s = (if 0 \<le> n \<and> n < 65536 then Inr (PyInt n)
                      else Inl (ValueError (NotBetween n 0 65536))))
       \<and> (metadata self ''unset_field'' = Some unset \<and> MStr s \<noteq> unset \<longrightarrow>
            cast_value L self s ''count''
              = (if 0 \<le> n then Inr (PyInt n) else Inl (ValueError (NotGreaterEq n 0)))
          \<and> cast_value L self s ''port''
              = (if 0 \<le> n \<and> n < 65536 then Inr (PyInt n)
                 else Inl (ValueError (NotBetween n 0 65536))))"
  using assms
  by (simp add: cast_value_scalar AGGREGATE_TYPE_RE_scalar TYPES_def range_check_def)

theorem count_port_range_witness:
  "py_int ''70000'' = Inr 70000
   \<and> metadata (bro_header True) ''unset_field'' = Some (MStr ''-'')
   \<and> MStr ''70000'' \<noteq> MStr ''-''
   \<and> cast_value reflib (bro_header True) ''70000'' ''count'' = Inr (PyInt 70000)
   \<and> cast_value reflib (bro_header True) ''70000'' ''port''
       = Inl (ValueError (NotBetween 70000 0 65536))"
proof -
  have p: "py_int ''70000'' = Inr 70000"
    by (simp add: py_int_def is_space_def is_digit_def)
  show ?thesis
    using p count_port_range [OF p, of reflib "bro_header True" "MStr ''-''"]
    by (simp add: bro_header_def)
qed

subsection \<open>Booleans\<close>

text \<open>
  C5. \<open>bool_from_str\<close> returns \<open>True\<close> exactly for \<open>1 y Y t T\<close>, \<open>False\<close> exactly for
  \<open>0 n N f F\<close>, and raises \<open>ValueError\<close> for every other string; \<open>true\<close> and \<open>yes\<close> are
  among those. Decoding a cell of type \<open>bool\<close> that is not the unset marker is
  \<open>bool_from_str\<close> of the cell.
\<close>

theorem bool_literals:
  "(bool_from_str v = Inr True \<longleftrightarrow> v \<in> {''1'', ''y'', ''Y'', ''t'', ''T''})
   \<and> (bool_from_str v = Inr False \<longleftrightarrow> v \<in> {''0'', ''n'', ''N'', ''f'', ''F''})
   \<and> (v \<notin> {''1'', ''y'', ''Y'', ''t'', ''T'', ''0'', ''n'', ''N'', ''f'', ''F''}
        \<longrightarrow> bool_from_str v = Inl (ValueError (NotBoolLike v)))
   \<and> bool_from_str ''true'' = Inl (ValueError (NotBoolLike ''true''))
   \<and> bool_from_str ''yes'' = Inl (ValueError (NotBoolLike ''yes''))
   \<and> (metadata self ''unset_field'' = Some unset \<and> MStr v \<noteq> unset
        \<longrightarrow> cast_value L self v ''bool'' = map_sum id PyBool (bool_from_str v))"
  by (auto simp: bool_from_str_def cast_value_scalar AGGREGATE_TYPE_RE_scalar TYPES_def)

theorem bool_literals_witness:
  "''True'' \<notin> {''1'', ''y'', ''Y'', ''t'', ''T'', ''0'', ''n'', ''N'', ''f'', ''F''}
   \<and> metadata (bro_header True) ''unset_field'' = Some (MStr ''-'')
   \<and> MStr ''True'' \<noteq> MStr ''-''
   \<and> cast_value reflib (bro_header True) ''True'' ''bool''
       = Inl (ValueError (NotBoolLike ''True''))"
  using bool_literals [of "''True''" "bro_header True" "MStr ''-''" reflib]
  by (simp add: bro_header_def)

subsection \<open>Aggregates with decomposition\<close>

text \<open>
  C2. In a reader that decomposes aggregates, for a cell \<open>v\<close> that is not the unset marker
  and a type \<open>kind[sub]\<close>: when \<open>v\<close> is the empty marker the result is the empty tuple
  for \<open>vector\<close> and the empty set for \<open>set\<close>; otherwise \<open>v\<close> is split on \<open>set_separator\<close>
  and each piece is decoded with the type \<open>sub\<close>. When the pieces decode to \<open>xs\<close> (in the
  order of the split) the result is the tuple \<open>xs\<close> for \<open>vector\<close> and the set of the
  elements of \<open>xs\<close> for \<open>set\<close>; when a piece fails, the first failure is the result.
  The witness is the cell \<open>1,2,3\<close> of type \<open>vector[count]\<close>, which gives \<open>(1, 2, 3)\<close>.
\<close>

theorem aggregate_decomposition:
  assumes "decompose_aggregate self"
    and "metadata self ''unset_field'' = Some unset" and "MStr v \<noteq> unset"
    and "metadata self ''empty_field'' = Some emp"
    and "AGGREGATE_TYPE_RE ty = Some (kind, sub)"
  shows "(MStr v = emp \<longrightarrow>
            (kind = ''vector'' \<longrightarrow> cast_value L self v ty = Inr (PyTuple []))
          \<and> (kind = ''set'' \<longrightarrow> cast_value L self v ty = Inr (PySet {||})))
       \<and> (MStr v \<noteq> emp \<and> metadata self ''set_separator'' = Some (MStr sep) \<and> sep \<noteq> [] \<longrightarrow>
            (\<forall>xs. map (\<lambda>p. cast_value L self p sub) (split_from sep [] v) = map Inr xs \<longrightarrow>
                (kind = ''vector'' \<longrightarrow> cast_value L self v ty = Inr (PyTuple xs))
              \<and> (kind = ''set'' \<longrightarrow> cast_value L self v ty = Inr (PySet (fset_of_list xs))))
          \<and> (\<forall>e. collect (map (\<lambda>p. cast_value L self p sub) (split_from sep [] v)) = Inl e
                  \<and> kind \<in> {''vector'', ''set''}
                \<longrightarrow> cast_value L self v ty = Inl e))"
proof (intro conjI impI allI)
  assume "MStr v = emp" "kind = ''vector''"
  then show "cast_value L self v ty = Inr (PyTuple [])"
    using assms by (simp add: cast_value.simps [of L self v ty] getattr_def AGGREGATE_TYPES_def)
next
  assume "MStr v = emp" "kind = ''set''"
  then show "cast_value L self v ty = Inr (PySet {||})"
    using assms by (simp add: cast_value.simps [of L self v ty] getattr_def AGGREGATE_TYPES_def)
next
  fix xs
  assume a: "MStr v \<noteq> emp \<and> metadata self ''set_separator'' = Some (MStr sep) \<and> sep \<noteq> []"
    and m: "map (\<lambda>p. cast_value L self p sub) (split_from sep [] v) = map Inr xs"
  from m have c: "collect (map (\<lambda>p. cast_value L self p sub) (split_from sep [] v)) = Inr xs"
    by (simp add: collect_Inr_iff)
  { assume "kind = ''vector''"
    then show "cast_value L self v ty = Inr (PyTuple xs)"
      using assms a c
      by (simp add: cast_value.simps [of L self v ty] getattr_def AGGREGATE_TYPES_def split_def) }
  { assume "kind = ''set''"
    then show "cast_value L self v ty = Inr (PySet (fset_of_list xs))"
      using assms a c
      by (simp add: cast_value.simps [of L self v ty] getattr_def AGGREGATE_TYPES_def split_def) }
next
  fix e
  assume a: "MStr v \<noteq> emp \<and> metadata self ''set_separator'' = Some (MStr sep) \<and> sep \<noteq> []"
    and c: "collect (map (\<lambda>p. cast_value L self p sub) (split_from sep [] v)) = Inl e
              \<and> kind \<in> {''vector'', ''set''}"
  then show "cast_value L self v ty = Inl e"
    using assms
    by (auto simp: cast_value.simps [of L self v ty] getattr_def AGGREGATE_TYPES_def split_def)
qed

theorem aggregate_decomposition_witness:
  "decompose_aggregate (bro_header True)
   \<and> metadata (bro_header True) ''unset_field'' = Some (MStr ''-'')
   \<and> MStr ''1,2,3'' \<noteq> MStr ''-''
   \<and> metadata (bro_header True) ''empty_field'' = Some (MStr ''(empty)'')
   \<and> AGGREGATE_TYPE_RE ''vector[count]'' = Some (''vector'', ''count'')
   \<and> MStr ''1,2,3'' \<noteq> MStr ''(empty)''
   \<and> metadata (bro_header True) ''set_separator'' = Some (MStr '','')
   \<and> split_from '','' [] ''1,2,3'' = [''1'', ''2'', ''3'']
   \<and> map (\<lambda>p. cast_value reflib (bro_header True) p ''count'') [''1'', ''2'', ''3'']
       = map Inr [PyInt 1, PyInt 2, PyInt 3]
   \<and> cast_value reflib (bro_header True) ''1,2,3'' ''vector[count]''
       = Inr (PyTuple [PyInt 1, PyInt 2, PyInt 3])"
proof -
  have re: "AGGREGATE_TYPE_RE ''vector[count]'' = Some (''vector'', ''count'')"
    by (simp add: AGGREGATE_TYPE_RE_def is_word_def)
  have u: "metadata (bro_header True) ''unset_field'' = Some (MStr ''-'')"
    and em: "metadata (bro_header True) ''empty_field'' = Some (MStr ''(empty)'')"
    and sp: "metadata (bro_header True) ''set_separator'' = Some (MStr '','')"
    and d: "decompose_aggregate (bro_header True)"
    by (simp_all add: bro_header_def)
  have pieces: "split_from '','' [] ''1,2,3'' = [''1'', ''2'', ''3'']"
    by simp
  have elems: "map (\<lambda>p. cast_value reflib (bro_header True) p ''count'') [''1'', ''2'', ''3'']
                 = map Inr [PyInt 1, PyInt 2, PyInt 3]"
    using u
    by (simp add: cast_value_scalar [OF u] AGGREGATE_TYPE_RE_scalar TYPES_def range_check_def
        py_int_def is_space_def is_digit_def)
  have ne: "MStr ''1,2,3'' \<noteq> MStr ''-''" "MStr ''1,2,3'' \<noteq> MStr ''(empty)''"
    by simp_all
  from aggregate_decomposition [OF d u ne(1) em re, where sep = "'',''" and L = reflib]
  have "cast_value reflib (bro_header True) ''1,2,3'' ''vector[count]''
          = Inr (PyTuple [PyInt 1, PyInt 2, PyInt 3])"
    using sp pieces elems ne by simp
  then show ?thesis
    using re u em sp d pieces elems by simp
qed

text \<open>The elements of a \<open>set\<close> are collected without duplicates.\<close>

lemma set_duplicates_collapse:
  "cast_value reflib (bro_header True) ''a,b,a'' ''set[string]''
     = Inr (PySet {|PyStr ''a'', PyStr ''b''|})"
  by (auto simp: cast_value.simps getattr_def bro_header_def AGGREGATE_TYPE_RE_def is_word_def
      TYPES_def AGGREGATE_TYPES_def split_def)

subsection \<open>Aggregates without decomposition\<close>

text \<open>
  C8. In a reader built with \<open>decompose_aggregate=False\<close>, a cell of an aggregate type
  decodes to \<open>None\<close> when it is the unset marker and to the raw string otherwise, the
  empty marker included: neither \<open>empty_field\<close> nor \<open>set_separator\<close> is looked at.
\<close>

theorem raw_aggregate_passthrough:
  assumes "\<not> decompose_aggregate self"
    and "metadata self ''unset_field'' = Some unset"
    and "AGGREGATE_TYPE_RE ty = Some (kind, sub)"
  shows "cast_value L self v ty = (if MStr v = unset then Inr PyNone else Inr (PyStr v))"
  using assms by (simp add: cast_value.simps getattr_def)

theorem raw_aggregate_passthrough_witness:
  "\<not> decompose_aggregate (bro_header False)
   \<and> metadata (bro_header False) ''unset_field'' = Some (MStr ''-'')
   \<and> metadata (bro_header False) ''empty_field'' = Some (MStr ''(empty)'')
   \<and> AGGREGATE_TYPE_RE ''set[string]'' = Some (''set'', ''string'')
   \<and> cast_value reflib (bro_header False) ''(empty)'' ''set[string]'' = Inr (PyStr ''(empty)'')"
proof -
  have re: "AGGREGATE_TYPE_RE ''set[string]'' = Some (''set'', ''string'')"
    by (simp add: AGGREGATE_TYPE_RE_def is_word_def)
  show ?thesis
    using re raw_aggregate_passthrough
      [of "bro_header False" "MStr ''-''" "''set[string]''" "''set''" "''string''" reflib
          "''(empty)''"]
    by (simp add: bro_header_def)
qed

section \<open>Properties of the reader\<close>

subsection \<open>Auxiliary facts\<close>








lemma iter_append:
  "iter L self xs = (recs, None, self1) \<Longrightarrow>
   iter L self (xs @ ys) = (case iter L self1 ys of (rs, out, s) \<Rightarrow> (recs @ rs, out, s))"
proof (induction xs arbitrary: self recs)
  case Nil
  then show ?case by (auto split: prod.splits)
next
  case (Cons x xs)
  show ?case
  proof (cases "startswith x ''#''")
    case True
    then show ?thesis
      using Cons.prems Cons.IH by (auto split: sum.splits)
  next
    case False
    then obtain r where r: "data_line L self x = Inr r"
      using Cons.prems by (auto split: sum.splits prod.splits)
    obtain rs0 where rs0: "iter L self xs = (rs0, None, self1)" and recs: "recs = r # rs0"
      using Cons.prems False r by (auto split: prod.splits)
    from Cons.IH [OF rs0] show ?thesis
      using False r recs by (auto split: prod.splits)
  qed
qed

lemma metadata_line_tokens:
  "metadata self ''separator'' = Some (MStr sep) \<Longrightarrow> sep \<noteq> [] \<Longrightarrow>
   metadata_line L self line
     = store_directive L self (split_from sep [] (rstrip (lstrip line (CHR ''#'')) nl))"
  by (simp add: metadata_line_def getattr_def split_def)

lemma data_line_cells:
  "metadata self ''separator'' = Some (MStr sep) \<Longrightarrow> sep \<noteq> [] \<Longrightarrow>
   data_line L self line = yield_record L self (split_from sep [] (rstrip line nl))"
  by (simp add: data_line_def getattr_def split_def)

lemma cast_values_no_unset:
  assumes "metadata self ''unset_field'' = None" and "iterate ty = Inr ts" and "ts \<noteq> []"
    and "cells \<noteq> []"
  shows "cast_values L self cells ty = Inl (AttributeError ''unset_field'')"
proof -
  obtain c cs t ts' where "cells = c # cs" "ts = t # ts'"
    using assms(3,4) by (cases cells; cases ts) auto
  then show ?thesis
    using assms(1,2) by (simp add: cast_values_def cast_value.simps [of L self c t] getattr_def)
qed

text \<open>
  A successful metadata line stores one key; under \<open>separator\<close> and \<open>set_separator\<close> it
  stores one character. So in every reader that \<open>__iter__\<close> reaches from a new one, the
  separator is a single character and the flag is the constructor's.
\<close>

lemma store_directive_Inr:
  assumes "store_directive L self toks = Inr self'"
  shows "\<exists>key rest0 x. toks = key # rest0
           \<and> self' = self\<lparr>metadata := (metadata self)(key \<mapsto> x)\<rparr>
           \<and> (key \<in> {''separator'', ''set_separator''} \<longrightarrow> (\<exists>c. x = MStr [c]))"
proof (cases toks)
  case Nil
  then show ?thesis
    using assms by (simp add: store_directive_def)
next
  case (Cons key rest0)
  show ?thesis
  proof (cases "key \<in> {''separator'', ''set_separator''}")
    case True
    then obtain r d where "maybe_singleton rest0 = MStr r" "unicode_escape L r = Inr d"
      "length d = 1" "self' = self\<lparr>metadata := (metadata self)(key \<mapsto> MStr d)\<rparr>"
      using assms unfolding Cons store_directive_def
      by (simp add: Let_def split: mvalue.splits sum.splits if_splits)
    moreover from \<open>length d = 1\<close> obtain c where "d = [c]"
      by (auto simp: length_Suc_conv)
    ultimately show ?thesis
      using Cons by blast
  next
    case False
    then obtain x where "self' = self\<lparr>metadata := (metadata self)(key \<mapsto> x)\<rparr>"
      using assms unfolding Cons store_directive_def
      by (auto simp: Let_def split: sum.splits)
    then show ?thesis
      using Cons False by blast
  qed
qed

lemma metadata_line_Inr:
  assumes "metadata_line L self line = Inr self'"
  shows "\<exists>key x. self' = self\<lparr>metadata := (metadata self)(key \<mapsto> x)\<rparr>
           \<and> (key \<in> {''separator'', ''set_separator''} \<longrightarrow> (\<exists>c. x = MStr [c]))"
proof -
  obtain toks where "store_directive L self toks = Inr self'"
    using assms by (auto simp: metadata_line_def split: sum.splits)
  from store_directive_Inr [OF this] show ?thesis
    by blast
qed

lemma metadata_line_separator:
  assumes "metadata_line L self line = Inr self'"
    and "\<exists>c. metadata self ''separator'' = Some (MStr [c])"
  shows "\<exists>c. metadata self' ''separator'' = Some (MStr [c])"
proof -
  obtain key x where s: "self' = self\<lparr>metadata := (metadata self)(key \<mapsto> x)\<rparr>"
    and k: "key \<in> {''separator'', ''set_separator''} \<longrightarrow> (\<exists>c. x = MStr [c])"
    using metadata_line_Inr [OF assms(1)] by blast
  show ?thesis
  proof (cases "key = ''separator''")
    case True
    then show ?thesis using s k by auto
  next
    case False
    then show ?thesis using s assms(2) by auto
  qed
qed

lemma metadata_line_flag:
  assumes "metadata_line L self line = Inr self'"
  shows "decompose_aggregate self' = decompose_aggregate self"
proof -
  obtain key x where "self' = self\<lparr>metadata := (metadata self)(key \<mapsto> x)\<rparr>"
    using metadata_line_Inr [OF assms] by blast
  then show ?thesis by simp
qed

lemma iter_invariant:
  assumes "iter L self lines = (recs, out, self')"
    and "\<exists>c. metadata self ''separator'' = Some (MStr [c])"
  shows "(\<exists>c. metadata self' ''separator'' = Some (MStr [c]))
       \<and> decompose_aggregate self' = decompose_aggregate self"
  using assms
proof (induction lines arbitrary: self recs)
  case Nil
  then show ?case by simp
next
  case (Cons x xs)
  show ?case
  proof (cases "startswith x ''#''")
    case True
    show ?thesis
    proof (cases "metadata_line L self x")
      case (Inl e)
      then show ?thesis using Cons.prems True by simp
    next
      case (Inr s1)
      then have "iter L s1 xs = (recs, out, self')"
        using Cons.prems(1) True by simp
      from Cons.IH [OF this metadata_line_separator [OF Inr Cons.prems(2)]]
      show ?thesis
        by (simp add: metadata_line_flag [OF Inr])
    qed
  next
    case False
    show ?thesis
    proof (cases "data_line L self x")
      case (Inl e)
      then show ?thesis using Cons.prems False by simp
    next
      case (Inr r)
      then obtain rs where "iter L self xs = (rs, out, self')"
        using Cons.prems(1) False by (auto split: prod.splits)
      from Cons.IH [OF this Cons.prems(2)] show ?thesis .
    qed
  qed
qed

lemma reachable_reader:
  assumes "iter L (init flag) lines = (recs, out, self')"
  shows "(\<exists>c. metadata self' ''separator'' = Some (MStr [c]))
       \<and> decompose_aggregate self' = flag"
  using iter_invariant [OF assms] by (simp add: init_def)

subsection \<open>Separator directives\<close>

text \<open>
  C6, as stated, fails for a \<open>separator\<close> or \<open>set_separator\<close> line that does not have
  exactly one value: \<open>maybe_singleton\<close> then gives a tuple, \<open>codecs.decode\<close> raises
  \<open>TypeError\<close> on it, and the line ends the iteration with that exception, not with a
  \<open>BroLogFormatError\<close>.
\<close>

theorem separator_value_count_counterexample:
  "startswith (''#separator a b'' @ [nl]) ''#''
   \<and> split_from '' '' [] (rstrip (lstrip (''#separator a b'' @ [nl]) (CHR ''#'')) nl)
       = [''separator'', ''a'', ''b'']
   \<and> metadata_line reflib (init True) (''#separator a b'' @ [nl]) = Inl TypeError
   \<and> iter reflib (init True) [''#separator a b'' @ [nl]] = ([], Some TypeError, init True)
   \<and> metadata_line reflib (init True) (''#set_separator'' @ [nl]) = Inl TypeError"
  by (simp add: startswith_def metadata_line_def store_directive_def maybe_singleton_def
      getattr_def split_def rstrip_def lstrip_def init_def)

text \<open>
  C6, amended. Take a metadata line whose first token (split on the separator in effect)
  is \<open>separator\<close> or \<open>set_separator\<close>. With exactly one value, the value is unescaped: a
  result \<open>d\<close> that is not exactly one character raises \<open>BroLogFormatError\<close>, a result of one
  character is stored under the key, and an exception of the codec is passed on. With no
  value or several, the line raises \<open>TypeError\<close>. Every exception ends the iteration at
  the line and leaves the reader unchanged.
\<close>

theorem separator_directive:
  assumes "metadata self ''separator'' = Some (MStr sep)" and "sep \<noteq> []"
    and "split_from sep [] (rstrip (lstrip line (CHR ''#'')) nl) = key # rest"
    and "key \<in> {''separator'', ''set_separator''}"
  shows "(\<forall>raw d. rest = [raw] \<and> unicode_escape L raw = Inr d \<and> length d \<noteq> 1 \<longrightarrow>
            metadata_line L self line = Inl (BroLogFormatError d)
          \<and> (startswith line ''#'' \<longrightarrow>
               iter L self (line # lines) = ([], Some (BroLogFormatError d), self)))
       \<and> (\<forall>raw d. rest = [raw] \<and> unicode_escape L raw = Inr d \<and> length d = 1 \<longrightarrow>
            metadata_line L self line = Inr (self\<lparr>metadata := (metadata self)(key \<mapsto> MStr d)\<rparr>)
          \<and> (startswith line ''#'' \<longrightarrow>
               iter L self (line # lines)
                 = iter L (self\<lparr>metadata := (metadata self)(key \<mapsto> MStr d)\<rparr>) lines))
       \<and> (\<forall>raw e. rest = [raw] \<and> unicode_escape L raw = Inl e \<longrightarrow>
            metadata_line L self line = Inl e
          \<and> (startswith line ''#'' \<longrightarrow> iter L self (line # lines) = ([], Some e, self)))
       \<and> (length rest \<noteq> 1 \<longrightarrow>
            metadata_line L self line = Inl TypeError
          \<and> (startswith line ''#'' \<longrightarrow> iter L self (line # lines) = ([], Some TypeError, self)))"
proof -
  have m: "metadata_line L self line = store_directive L self (key # rest)"
    using assms(1-3) by (simp add: metadata_line_tokens)
  have one: "metadata_line L self line =
          (case unicode_escape L raw of
             Inl e \<Rightarrow> Inl e
           | Inr d \<Rightarrow> if length d \<noteq> 1 then Inl (BroLogFormatError d)
                      else Inr (self\<lparr>metadata := (metadata self)(key \<mapsto> MStr d)\<rparr>))"
    if "rest = [raw]" for raw
    using that assms(4) unfolding m
    by (auto simp: store_directive_def maybe_singleton_def Let_def split: sum.splits)
  have many: "metadata_line L self line = Inl TypeError" if "length rest \<noteq> 1"
    using that assms(4) unfolding m
    by (auto simp: store_directive_def maybe_singleton_def Let_def)
  show ?thesis
    using one many by simp
qed

theorem separator_directive_witness:
  "metadata (init True) ''separator'' = Some (MStr '' '')
   \<and> split_from '' '' [] (rstrip (lstrip (''#separator '' @ backslash # ''x09'' @ [nl]) (CHR ''#'')) nl)
       = [''separator'', backslash # ''x09'']
   \<and> unicode_escape reflib (backslash # ''x09'') = Inr [CHR 0x09]
   \<and> metadata_line reflib (init True) (''#separator '' @ backslash # ''x09'' @ [nl])
       = Inr ((init True)\<lparr>metadata := (metadata (init True))(''separator'' \<mapsto> MStr [CHR 0x09])\<rparr>)
   \<and> split_from '' '' [] (rstrip (lstrip (''#set_separator ::'' @ [nl]) (CHR ''#'')) nl)
       = [''set_separator'', ''::'']
   \<and> unicode_escape reflib ''::'' = Inr ''::''
   \<and> metadata_line reflib (init True) (''#set_separator ::'' @ [nl]) = Inl (BroLogFormatError ''::'')
   \<and> split_from '' '' [] (rstrip (lstrip (''#separator '' @ [backslash, nl]) (CHR ''#'')) nl)
       = [''separator'', [backslash]]
   \<and> unicode_escape reflib [backslash] = Inl UnicodeDecodeError
   \<and> metadata_line reflib (init True) (''#separator '' @ [backslash, nl]) = Inl UnicodeDecodeError
   \<and> split_from '' '' [] (rstrip (lstrip (''#separator a b'' @ [nl]) (CHR ''#'')) nl)
       = [''separator'', ''a'', ''b'']
   \<and> startswith (''#separator a b'' @ [nl]) ''#''
   \<and> iter reflib (init True) [''#separator a b'' @ [nl], ''x'' @ [nl]]
       = ([], Some TypeError, init True)"
proof -
  have s: "metadata (init True) ''separator'' = Some (MStr '' '')" and ne: "'' '' \<noteq> []"
    by (simp_all add: init_def)
  have t1: "split_from '' '' []
              (rstrip (lstrip (''#separator '' @ backslash # ''x09'' @ [nl]) (CHR ''#'')) nl)
            = [''separator'', backslash # ''x09'']"
    by (simp add: rstrip_def lstrip_def)
  have c9: "char_of (9 :: nat) = CHR 0x09"
    by code_simp
  have u1: "unicode_escape reflib (backslash # ''x09'') = Inr [CHR 0x09]"
    by (simp add: reflib_def simple_escape_def hex_digit_def prepend_def c9)
  have t2: "split_from '' '' [] (rstrip (lstrip (''#set_separator ::'' @ [nl]) (CHR ''#'')) nl)
            = [''set_separator'', ''::'']"
    by (simp add: rstrip_def lstrip_def)
  have u2: "unicode_escape reflib ''::'' = Inr ''::''"
    by (simp add: reflib_def utf8_def prepend_def)
  have t3: "split_from '' '' [] (rstrip (lstrip (''#separator '' @ [backslash, nl]) (CHR ''#'')) nl)
            = [''separator'', [backslash]]"
    by (simp add: rstrip_def lstrip_def)
  have u3: "unicode_escape reflib [backslash] = Inl UnicodeDecodeError"
    by (simp add: reflib_def)
  have t4: "split_from '' '' [] (rstrip (lstrip (''#separator a b'' @ [nl]) (CHR ''#'')) nl)
            = [''separator'', ''a'', ''b'']"
    by (simp add: rstrip_def lstrip_def)
  have st: "startswith (''#separator a b'' @ [nl]) ''#''"
    by (simp add: startswith_def)
  show ?thesis
    using s t1 u1 t2 u2 t3 u3 t4 st
      separator_directive [OF s ne t1, of reflib "[]"]
      separator_directive [OF s ne t2, of reflib "[]"]
      separator_directive [OF s ne t3, of reflib "[]"]
      separator_directive [OF s ne t4, of reflib "[''x'' @ [nl]]"]
    by simp
qed

text \<open>
  C7. Let the lines \<open>before\<close> run without an exception, yielding \<open>recs\<close>, and let \<open>d\<close> be
  a \<open>separator\<close> directive whose tokens are taken with the separator \<open>old\<close> in effect
  after \<open>before\<close> and whose value unescapes to the character \<open>c\<close>. Then \<open>d\<close> yields
  nothing and leaves \<open>recs\<close> as they were; the lines after \<open>d\<close> are run from the reader
  whose separator is \<open>c\<close>, their records following \<open>recs\<close>; and in that reader every
  line, metadata or data, is split on \<open>c\<close>.
\<close>

theorem separator_change_takes_effect_next_line:
  assumes "iter L self before = (recs, None, self1)"
    and "metadata self1 ''separator'' = Some (MStr old)" and "old \<noteq> []"
    and "startswith d ''#''"
    and "split_from old [] (rstrip (lstrip d (CHR ''#'')) nl) = [''separator'', raw]"
    and "unicode_escape L raw = Inr [c]"
    and "self2 = self1\<lparr>metadata := (metadata self1)(''separator'' \<mapsto> MStr [c])\<rparr>"
  shows "iter L self (before @ [d]) = (recs, None, self2)
       \<and> iter L self (before @ d # after)
           = (case iter L self2 after of (rs, out, s) \<Rightarrow> (recs @ rs, out, s))
       \<and> metadata_line L self2 line
           = store_directive L self2 (split_from [c] [] (rstrip (lstrip line (CHR ''#'')) nl))
       \<and> data_line L self2 line = yield_record L self2 (split_from [c] [] (rstrip line nl))"
proof -
  have m: "metadata_line L self1 d = Inr self2"
    using assms(2,3,5,6,7)
    by (simp add: metadata_line_tokens store_directive_def maybe_singleton_def Let_def)
  have one: "iter L self1 [d] = ([], None, self2)"
    using m assms(4) by simp
  have step: "iter L self1 (d # after) = iter L self2 after"
    using m assms(4) by simp
  have sep2: "metadata self2 ''separator'' = Some (MStr [c])"
    by (simp add: assms(7))
  show ?thesis
    using iter_append [OF assms(1), of "[d]"] iter_append [OF assms(1), of "d # after"]
      one step metadata_line_tokens [OF sep2] data_line_cells [OF sep2]
    by simp
qed

theorem separator_change_takes_effect_next_line_witness:
  "iter reflib (init True)
     [''#unset_field -'' @ [nl], ''#fields a b'' @ [nl], ''#types string string'' @ [nl],
      ''x y'' @ [nl]]
     = ([[(''a'', PyStr ''x''), (''b'', PyStr ''y'')]], None,
        (init True)\<lparr>metadata := (metadata (init True))
          (''unset_field'' \<mapsto> MStr ''-'', ''fields'' \<mapsto> MTuple [''a'', ''b''],
           ''types'' \<mapsto> MTuple [''string'', ''string''])\<rparr>)
   \<and> startswith (''#separator '' @ backslash # ''x09'' @ [nl]) ''#''
   \<and> split_from '' '' []
         (rstrip (lstrip (''#separator '' @ backslash # ''x09'' @ [nl]) (CHR ''#'')) nl)
       = [''separator'', backslash # ''x09'']
   \<and> unicode_escape reflib (backslash # ''x09'') = Inr [CHR 0x09]
   \<and> iter reflib (init True)
        ([''#unset_field -'' @ [nl], ''#fields a b'' @ [nl], ''#types string string'' @ [nl],
          ''x y'' @ [nl]]
         @ (''#separator '' @ backslash # ''x09'' @ [nl]) # [''p q'' @ [CHR 0x09] @ ''r'' @ [nl]])
     = ([[(''a'', PyStr ''x''), (''b'', PyStr ''y'')],
         [(''a'', PyStr ''p q''), (''b'', PyStr ''r'')]], None,
        (init True)\<lparr>metadata := (metadata (init True))
          (''unset_field'' \<mapsto> MStr ''-'', ''fields'' \<mapsto> MTuple [''a'', ''b''],
           ''types'' \<mapsto> MTuple [''string'', ''string''],
           ''separator'' \<mapsto> MStr [CHR 0x09])\<rparr>)"
proof -
  let ?before = "[''#unset_field -'' @ [nl], ''#fields a b'' @ [nl],
                  ''#types string string'' @ [nl], ''x y'' @ [nl]]"
  let ?d = "''#separator '' @ backslash # ''x09'' @ [nl]"
  let ?s1 = "(init True)\<lparr>metadata := (metadata (init True))
          (''unset_field'' \<mapsto> MStr ''-'', ''fields'' \<mapsto> MTuple [''a'', ''b''],
           ''types'' \<mapsto> MTuple [''string'', ''string''])\<rparr>"
  let ?s2 = "?s1\<lparr>metadata := (metadata ?s1)(''separator'' \<mapsto> MStr [CHR 0x09])\<rparr>"
  have run: "iter reflib (init True) ?before
               = ([[(''a'', PyStr ''x''), (''b'', PyStr ''y'')]], None, ?s1)"
    by (simp add: startswith_def metadata_line_def data_line_def yield_record_def
        store_directive_def maybe_singleton_def getattr_def split_def rstrip_def lstrip_def
        init_def cast_values_def cast_value.simps AGGREGATE_TYPE_RE_def is_word_def TYPES_def
        dict_def)
  have sep1: "metadata ?s1 ''separator'' = Some (MStr '' '')" and ne: "'' '' \<noteq> []"
    by (simp_all add: init_def)
  have st: "startswith ?d ''#''"
    by (simp add: startswith_def)
  have toks: "split_from '' '' [] (rstrip (lstrip ?d (CHR ''#'')) nl)
                = [''separator'', backslash # ''x09'']"
    by (simp add: rstrip_def lstrip_def)
  have c9: "char_of (9 :: nat) = CHR 0x09"
    by code_simp
  have esc: "unicode_escape reflib (backslash # ''x09'') = Inr [CHR 0x09]"
    by (simp add: reflib_def simple_escape_def hex_digit_def prepend_def c9)
  have after: "iter reflib ?s2 [''p q'' @ [CHR 0x09] @ ''r'' @ [nl]]
                 = ([[(''a'', PyStr ''p q''), (''b'', PyStr ''r'')]], None, ?s2)"
    by (simp add: startswith_def data_line_def yield_record_def getattr_def split_def
        rstrip_def init_def cast_values_def cast_value.simps AGGREGATE_TYPE_RE_def is_word_def
        TYPES_def dict_def)
  from separator_change_takes_effect_next_line
    [OF run sep1 ne st toks esc refl, of "[''p q'' @ [CHR 0x09] @ ''r'' @ [nl]]"]
  have "iter reflib (init True) (?before @ ?d # [''p q'' @ [CHR 0x09] @ ''r'' @ [nl]])
          = ([[(''a'', PyStr ''x''), (''b'', PyStr ''y'')],
              [(''a'', PyStr ''p q''), (''b'', PyStr ''r'')]], None, ?s2)"
    unfolding after by simp
  then show ?thesis
    using run st toks esc by simp
qed

subsection \<open>Data lines before the header is complete\<close>

text \<open>
  C9, as stated, fails for the unset marker: after a \<open>types\<close> directive without values
  no cell is decoded, so \<open>unset_field\<close> is never looked up and the data line yields the
  empty record although \<open>unset_field\<close> is not set.
\<close>

theorem missing_unset_field_counterexample:
  "fst (iter reflib (init True) [''#fields a b'' @ [nl], ''#types'' @ [nl], ''x'' @ [nl]]) = [[]]
   \<and> fst (snd (iter reflib (init True) [''#fields a b'' @ [nl], ''#types'' @ [nl], ''x'' @ [nl]]))
       = None
   \<and> metadata (snd (snd (iter reflib (init True)
         [''#fields a b'' @ [nl], ''#types'' @ [nl], ''x'' @ [nl]]))) ''unset_field'' = None"
  by (simp add: startswith_def metadata_line_def data_line_def yield_record_def
      store_directive_def maybe_singleton_def getattr_def split_def rstrip_def lstrip_def
      init_def cast_values_def dict_def)

text \<open>
  C9, amended. For a data line, with a valid separator in effect: without \<open>types\<close> the
  line raises \<open>KeyError\<close>; without \<open>fields\<close> it raises an exception, which is the
  \<open>AttributeError\<close> of \<open>fields\<close> when the cells decode; without \<open>unset_field\<close> and with a
  non-empty \<open>types\<close> it raises the \<open>AttributeError\<close> of \<open>unset_field\<close>. Whenever a data
  line raises, the iteration yields no record for it and ends with that exception.
\<close>

theorem data_line_before_header:
  assumes "\<not> startswith line ''#''"
    and "metadata self ''separator'' = Some (MStr sep)" and "sep \<noteq> []"
  shows "(metadata self ''types'' = None \<longrightarrow> data_line L self line = Inl (KeyError ''types''))
       \<and> (metadata self ''fields'' = None \<longrightarrow>
            (\<exists>e. data_line L self line = Inl e)
          \<and> (\<forall>ty vals. metadata self ''types'' = Some ty
                \<and> cast_values L self (split_from sep [] (rstrip line nl)) ty = Inr vals
               \<longrightarrow> data_line L self line = Inl (AttributeError ''fields'')))
       \<and> (metadata self ''unset_field'' = None \<longrightarrow>
            (\<forall>ty ts. metadata self ''types'' = Some ty \<and> iterate ty = Inr ts \<and> ts \<noteq> []
               \<longrightarrow> data_line L self line = Inl (AttributeError ''unset_field'')))
       \<and> (\<forall>e. data_line L self line = Inl e
             \<longrightarrow> iter L self (line # lines) = ([], Some e, self))"
proof (intro conjI impI allI)
  assume "metadata self ''types'' = None"
  then show "data_line L self line = Inl (KeyError ''types'')"
    by (simp add: data_line_cells [OF assms(2,3)] yield_record_def)
next
  assume "metadata self ''fields'' = None"
  then show "\<exists>e. data_line L self line = Inl e"
    by (simp add: data_line_cells [OF assms(2,3)] yield_record_def getattr_def
        split: option.splits sum.splits)
next
  fix ty vals
  assume "metadata self ''fields'' = None"
    and "metadata self ''types'' = Some ty
           \<and> cast_values L self (split_from sep [] (rstrip line nl)) ty = Inr vals"
  then show "data_line L self line = Inl (AttributeError ''fields'')"
    by (simp add: data_line_cells [OF assms(2,3)] yield_record_def getattr_def)
next
  fix ty ts
  assume "metadata self ''unset_field'' = None"
    and "metadata self ''types'' = Some ty \<and> iterate ty = Inr ts \<and> ts \<noteq> []"
  then show "data_line L self line = Inl (AttributeError ''unset_field'')"
    by (simp add: data_line_cells [OF assms(2,3)] yield_record_def
        cast_values_no_unset split_from_nonempty)
next
  fix e
  assume "data_line L self line = Inl e"
  then show "iter L self (line # lines) = ([], Some e, self)"
    using assms(1) by simp
qed

theorem data_line_before_header_witness:
  "\<not> startswith ''x 1'' ''#''
   \<and> metadata (init True) ''separator'' = Some (MStr '' '')
   \<and> metadata (init True) ''types'' = None
   \<and> data_line reflib (init True) ''x 1'' = Inl (KeyError ''types'')
   \<and> iter reflib (init True) [''x 1'', ''y 2''] = ([], Some (KeyError ''types''), init True)
   \<and> metadata ((init True)\<lparr>metadata := (metadata (init True))
         (''unset_field'' \<mapsto> MStr ''-'', ''types'' \<mapsto> MTuple [''string'', ''count''])\<rparr>)
        ''fields'' = None
   \<and> cast_values reflib ((init True)\<lparr>metadata := (metadata (init True))
         (''unset_field'' \<mapsto> MStr ''-'', ''types'' \<mapsto> MTuple [''string'', ''count''])\<rparr>)
        (split_from '' '' [] (rstrip ''x 1'' nl)) (MTuple [''string'', ''count''])
       = Inr [PyStr ''x'', PyInt 1]
   \<and> data_line reflib ((init True)\<lparr>metadata := (metadata (init True))
         (''unset_field'' \<mapsto> MStr ''-'', ''types'' \<mapsto> MTuple [''string'', ''count''])\<rparr>) ''x 1''
       = Inl (AttributeError ''fields'')
   \<and> metadata ((init True)\<lparr>metadata := (metadata (init True))
         (''fields'' \<mapsto> MTuple [''a'', ''b''], ''types'' \<mapsto> MTuple [''string'', ''count''])\<rparr>)
        ''unset_field'' = None
   \<and> iterate (MTuple [''string'', ''count'']) = Inr [''string'', ''count'']
   \<and> data_line reflib ((init True)\<lparr>metadata := (metadata (init True))
         (''fields'' \<mapsto> MTuple [''a'', ''b''], ''types'' \<mapsto> MTuple [''string'', ''count''])\<rparr>) ''x 1''
       = Inl (AttributeError ''unset_field'')"
proof -
  let ?nf = "(init True)\<lparr>metadata := (metadata (init True))
         (''unset_field'' \<mapsto> MStr ''-'', ''types'' \<mapsto> MTuple [''string'', ''count''])\<rparr>"
  let ?nu = "(init True)\<lparr>metadata := (metadata (init True))
         (''fields'' \<mapsto> MTuple [''a'', ''b''], ''types'' \<mapsto> MTuple [''string'', ''count''])\<rparr>"
  have nd: "\<not> startswith ''x 1'' ''#''"
    by (simp add: startswith_def)
  have s0: "metadata (init True) ''separator'' = Some (MStr '' '')"
    and s1: "metadata ?nf ''separator'' = Some (MStr '' '')"
    and s2: "metadata ?nu ''separator'' = Some (MStr '' '')"
    and ne: "'' '' \<noteq> []"
    by (simp_all add: init_def)
  have cv: "cast_values reflib ?nf (split_from '' '' [] (rstrip ''x 1'' nl))
              (MTuple [''string'', ''count'']) = Inr [PyStr ''x'', PyInt 1]"
    by (simp add: rstrip_def cast_values_def cast_value.simps getattr_def init_def
        AGGREGATE_TYPE_RE_def is_word_def TYPES_def range_check_def py_int_def is_space_def
        is_digit_def)
  show ?thesis
    using nd s0 cv
      data_line_before_header [OF nd s0 ne, of reflib "[''y 2'']"]
      data_line_before_header [OF nd s1 ne, of reflib "[]"]
      data_line_before_header [OF nd s2 ne, of reflib "[]"]
    by (simp add: init_def)
qed

subsection \<open>Cells, types and fields of different lengths\<close>


text \<open>
  A directive other than the four special ones stores its values as they are: a tuple,
  unless there is exactly one value, which is stored as a string.
\<close>

lemma store_directive_tuple:
  assumes "key \<notin> {''separator'', ''set_separator'', ''open'', ''close''}"
  shows "store_directive L self (key # vals)
           = Inr (self\<lparr>metadata := (metadata self)
                   (key \<mapsto> (if length vals = 1 then MStr (vals ! 0) else MTuple vals))\<rparr>)"
  using assms by (simp add: store_directive_def maybe_singleton_def Let_def)




text \<open>With a field name declared twice, the key keeps its first position and the last value.\<close>

lemma duplicate_field_names_collapse:
  "data_line reflib ((init True)\<lparr>metadata := (metadata (init True))
       (''unset_field'' \<mapsto> MStr ''-'', ''fields'' \<mapsto> MTuple [''a'', ''b'', ''a''],
        ''types'' \<mapsto> MTuple [''count'', ''count'', ''count''])\<rparr>) (''1 2 3'' @ [nl])
     = Inr [(''a'', PyInt 3), (''b'', PyInt 2)]"
  by (simp add: data_line_def yield_record_def getattr_def split_def rstrip_def init_def
      cast_values_def cast_value.simps AGGREGATE_TYPE_RE_def is_word_def TYPES_def
      range_check_def py_int_def is_space_def is_digit_def dict_def)

end
